theory Spec2Isabelle
  imports Main "HOL-Library.Word"
begin

section \<open>Machine integers of the Go source\<close>

text \<open>
  Go's \<open>int64\<close> and \<open>uint64\<close> are both 64-bit words. An \<open>int64\<close> is read through
  \<open>sint\<close> (two's complement), a \<open>uint64\<close> through \<open>uint\<close> or \<open>unat\<close>.
  \<open>time.Duration\<close> is declared as \<open>int64\<close> in Go's standard library.
\<close>

type_synonym int64 = "64 word"
type_synonym uint64 = "64 word"
type_synonym Duration = "64 word"

text \<open>
  The conversion \<open>uint64(n)\<close> of an \<open>int64\<close>: the value is sign-extended to unbounded
  precision and then truncated to 64 bits.
\<close>

definition uint64_of_int64 :: "int64 \<Rightarrow> uint64" where
  "uint64_of_int64 n = word_of_int (sint n)"

section \<open>The failure-counter array\<close>

text \<open>
  \<open>const errorHTTPStatusCodes = http.StatusNetworkAuthenticationRequired - http.StatusBadRequest + 1\<close>,
  with the two status codes 511 and 400 of \<open>net/http\<close>.
\<close>

definition StatusBadRequest :: int where
  "StatusBadRequest = 400"

definition StatusNetworkAuthenticationRequired :: int where
  "StatusNetworkAuthenticationRequired = 511"

definition errorHTTPStatusCodes :: nat where
  "errorHTTPStatusCodes = nat (StatusNetworkAuthenticationRequired - StatusBadRequest + 1)"

text \<open>
  A Go array \<open>[errorHTTPStatusCodes]T\<close>: its length is part of its type, so the model is
  the type of lists of exactly that length. \<open>slots\<close> reads the elements in index order.
\<close>

typedef 'a statusArray = "{xs :: 'a list. length xs = errorHTTPStatusCodes}"
  morphisms slots StatusArray
proof
  show "replicate errorHTTPStatusCodes undefined \<in> {xs :: 'a list. length xs = errorHTTPStatusCodes}"
    by simp
qed

setup_lifting type_definition_statusArray

text \<open>The zero value of the array type: every element is the zero value.\<close>

lift_definition zeroArray :: "('a :: zero) statusArray" is
  "replicate errorHTTPStatusCodes 0"
  by simp

text \<open>
  \<open>a[i].Store(v)\<close>: replace one element. In Go an index out of range panics; the only
  index expression on such an array in the source takes its index from a \<open>range\<close> over an
  array of the same type, so the index is always below the length
  (see \<open>rangeStore_slots\<close> below, where every store of the loop lands on its slot).
\<close>

lift_definition store :: "'a statusArray \<Rightarrow> nat \<Rightarrow> 'a \<Rightarrow> 'a statusArray" is
  "\<lambda>xs i v. xs[i := v]"
  by simp

section \<open>ConnStats\<close>

text \<open>
  \<open>type ConnStats struct\<close>. An \<open>atomic.Uint64\<close> field is modelled by the value it holds,
  an \<open>atomic.Duration\<close> likewise; \<open>Store\<close> replaces the value and \<open>Load\<close> reads it.
  The methods have the receiver \<open>s *ConnStats\<close>; each is modelled as a function from the
  record the receiver points to (and the arguments) to the record after the call, or to
  the value returned.
\<close>

record ConnStats =
  endpoint :: string
  totalInputBytes :: uint64
  totalOutputBytes :: uint64
  totalCalls :: uint64
  totalFailedCalls :: "uint64 statusArray"
  minLatency :: Duration
  maxLatency :: Duration

definition setInputBytes :: "ConnStats \<Rightarrow> int64 \<Rightarrow> ConnStats" where
  "setInputBytes s n = s\<lparr>totalInputBytes := uint64_of_int64 n\<rparr>"

definition setOutputBytes :: "ConnStats \<Rightarrow> int64 \<Rightarrow> ConnStats" where
  "setOutputBytes s n = s\<lparr>totalOutputBytes := uint64_of_int64 n\<rparr>"

definition getTotalInputBytes :: "ConnStats \<Rightarrow> uint64" where
  "getTotalInputBytes s = totalInputBytes s"

definition setTotalCalls :: "ConnStats \<Rightarrow> int64 \<Rightarrow> ConnStats" where
  "setTotalCalls s n = s\<lparr>totalCalls := uint64_of_int64 n\<rparr>"

text \<open>
  \<open>for statusCode, value := range n { s.totalFailedCalls[statusCode].Store(uint64(value)) }\<close>:
  the loop over the elements of \<open>n\<close> that are still to be visited, \<open>statusCode\<close> being the
  index of the first of them. Both arrays have \<open>errorHTTPStatusCodes\<close> elements, so every
  index the loop produces is in range.
\<close>

fun rangeStore :: "nat \<Rightarrow> int64 list \<Rightarrow> ConnStats \<Rightarrow> ConnStats" where
  "rangeStore statusCode [] s = s"
| "rangeStore statusCode (v # rest) s =
     rangeStore (Suc statusCode) rest
       (s\<lparr>totalFailedCalls := store (totalFailedCalls s) statusCode (uint64_of_int64 v)\<rparr>)"

definition setTotalCallFailures :: "ConnStats \<Rightarrow> int64 statusArray \<Rightarrow> ConnStats" where
  "setTotalCallFailures s n = rangeStore 0 (slots n) s"

definition setMinLatency :: "ConnStats \<Rightarrow> Duration \<Rightarrow> ConnStats" where
  "setMinLatency s mn = s\<lparr>minLatency := mn\<rparr>"

definition setMaxLatency :: "ConnStats \<Rightarrow> Duration \<Rightarrow> ConnStats" where
  "setMaxLatency s mx = s\<lparr>maxLatency := mx\<rparr>"

definition getTotalOutputBytes :: "ConnStats \<Rightarrow> uint64" where
  "getTotalOutputBytes s = totalOutputBytes s"

text \<open>
  \<open>return &ConnStats{endpoint: endpoint}\<close>: every field the literal does not name has its
  zero value.
\<close>

definition newConnStats :: "string \<Rightarrow> ConnStats" where
  "newConnStats e =
     \<lparr>endpoint = e, totalInputBytes = 0, totalOutputBytes = 0, totalCalls = 0,
      totalFailedCalls = zeroArray, minLatency = 0, maxLatency = 0\<rparr>"

section \<open>getBucketFromPath\<close>

text \<open>
  A Go string is a sequence of bytes and \<open>path[i]\<close> is a byte; \<open>string\<close> here is a list of
  8-bit characters. The first loop \<open>for i < len(path) && path[i] == '/' { i++ }\<close> returns
  the final value of \<open>i\<close>.
\<close>

function skipSlashes :: "string \<Rightarrow> nat \<Rightarrow> nat" where
  "skipSlashes path i =
     (if i < length path \<and> path ! i = CHR ''/'' then skipSlashes path (i + 1) else i)"
  by pat_completeness auto
termination
  by (relation "measure (\<lambda>(path, i). length path - i)") auto

text \<open>
  The second loop \<open>for ; i < len(path); i++\<close> with its \<open>break\<close> at a slash; \<open>sb\<close> is the
  content of the \<open>strings.Builder\<close>, and \<open>sb.WriteByte\<close> appends one byte.
\<close>

function copySegment :: "string \<Rightarrow> nat \<Rightarrow> string \<Rightarrow> string" where
  "copySegment path i sb =
     (if i < length path
      then (if path ! i = CHR ''/'' then sb else copySegment path (i + 1) (sb @ [path ! i]))
      else sb)"
  by pat_completeness auto
termination
  by (relation "measure (\<lambda>(path, i, sb). length path - i)") auto

definition getBucketFromPath :: "string \<Rightarrow> string" where
  "getBucketFromPath path =
     (if length path = 0 then ''''
      else copySegment path (skipSlashes path 0) '''')"

text \<open>
  The classifier as the specification words it: skip the leading slashes, then keep the
  characters before the next slash.
\<close>

definition bucketFromPath_spec :: "string \<Rightarrow> string" where
  "bucketFromPath_spec path =
     takeWhile (\<lambda>c. c \<noteq> CHR ''/'') (dropWhile (\<lambda>c. c = CHR ''/'') path)"

section \<open>Values handed to the metrics library\<close>









datatype ValueType = CounterValue | GaugeValue | UntypedValue









section \<open>The collector\<close>














section \<open>What a scrape sends when no constructor panics\<close>




section \<open>Auxiliary facts\<close>

declare skipSlashes.simps [simp del] copySegment.simps [simp del]

subsection \<open>Integer conversion\<close>

lemma uint_uint64_of_int64: "uint (uint64_of_int64 n) = sint n mod 2 ^ 64"
  by (simp add: uint64_of_int64_def uint_sint take_bit_eq_mod)

lemma uint_uint64_of_int64_nonneg: "0 \<le> sint n \<Longrightarrow> uint (uint64_of_int64 n) = sint n"
  using sint_lt [of n] by (simp add: uint_uint64_of_int64)

lemma uint_uint64_of_int64_neg:
  assumes "sint n < 0"
  shows "uint (uint64_of_int64 n) = sint n + 2 ^ 64"
proof -
  have lo: "- (2 ^ 63) \<le> sint n" using sint_ge [of n] by simp
  have "sint n mod 2 ^ 64 = (sint n + 2 ^ 64) mod 2 ^ 64" by simp
  also have "\<dots> = sint n + 2 ^ 64"
    using lo assms by (intro mod_pos_pos_trivial) simp_all
  finally show ?thesis by (simp add: uint_uint64_of_int64)
qed

subsection \<open>The failure-counter array\<close>

lemma errorHTTPStatusCodes_eq: "errorHTTPStatusCodes = 112"
  by (simp add: errorHTTPStatusCodes_def StatusNetworkAuthenticationRequired_def
      StatusBadRequest_def)

lemma length_slots: "length (slots a) = errorHTTPStatusCodes"
  using slots [of a] by simp


text \<open>
  The loop of \<open>setTotalCallFailures\<close>, started at index \<open>k\<close> with the elements \<open>vs\<close> to
  visit: it overwrites exactly the slots \<open>k, \<dots>, k + length vs - 1\<close>.
\<close>

lemma rangeStore_slots:
  "k + length vs \<le> errorHTTPStatusCodes \<Longrightarrow>
   slots (totalFailedCalls (rangeStore k vs s)) =
     take k (slots (totalFailedCalls s)) @ map uint64_of_int64 vs @
     drop (k + length vs) (slots (totalFailedCalls s))"
proof (induction vs arbitrary: k s)
  case Nil
  then show ?case by simp
next
  case (Cons v vs)
  from Cons.prems have k: "k < length (slots (totalFailedCalls s))"
    by (simp add: length_slots)
  from Cons.prems have "Suc k + length vs \<le> errorHTTPStatusCodes" by simp
  from Cons.IH [OF this] show ?case
    using k by (simp add: store.rep_eq take_Suc_conv_app_nth)
qed

lemma rangeStore_frame:
  "endpoint (rangeStore k vs s) = endpoint s \<and>
   totalInputBytes (rangeStore k vs s) = totalInputBytes s \<and>
   totalOutputBytes (rangeStore k vs s) = totalOutputBytes s \<and>
   totalCalls (rangeStore k vs s) = totalCalls s \<and>
   minLatency (rangeStore k vs s) = minLatency s \<and>
   maxLatency (rangeStore k vs s) = maxLatency s"
  by (induction vs arbitrary: k s) simp_all

lemma slots_setTotalCallFailures:
  "slots (totalFailedCalls (setTotalCallFailures s counts)) =
     map uint64_of_int64 (slots counts)"
  unfolding setTotalCallFailures_def
  using rangeStore_slots [of 0 "slots counts" s]
  by (simp add: length_slots)

subsection \<open>The two loops of getBucketFromPath\<close>

lemma skipSlashes_eq:
  "i \<le> length path \<Longrightarrow>
   skipSlashes path i = i + length (takeWhile (\<lambda>c. c = CHR ''/'') (drop i path))"
proof (induction path i rule: skipSlashes.induct)
  case (1 path i)
  show ?case
  proof (cases "i < length path \<and> path ! i = CHR ''/''")
    case True
    then have d: "drop i path = CHR ''/'' # drop (Suc i) path"
      by (metis Cons_nth_drop_Suc)
    from True 1 show ?thesis
      by (subst skipSlashes.simps) (simp add: d)
  next
    case False
    show ?thesis
    proof (cases "i < length path")
      case True
      with False have "path ! i \<noteq> CHR ''/''" by simp
      moreover from True have "drop i path = path ! i # drop (Suc i) path"
        by (simp add: Cons_nth_drop_Suc)
      ultimately show ?thesis using False
        by (subst skipSlashes.simps) simp
    next
      case False
      then show ?thesis
        by (subst skipSlashes.simps) simp
    qed
  qed
qed

lemma copySegment_eq:
  "copySegment path i sb = sb @ takeWhile (\<lambda>c. c \<noteq> CHR ''/'') (drop i path)"
proof (induction path i sb rule: copySegment.induct)
  case (1 path i sb)
  show ?case
  proof (cases "i < length path")
    case True
    then have d: "drop i path = path ! i # drop (Suc i) path"
      by (simp add: Cons_nth_drop_Suc)
    from True 1 show ?thesis
      by (subst copySegment.simps) (simp add: d)
  next
    case False
    then show ?thesis
      by (subst copySegment.simps) simp
  qed
qed

section \<open>The bucket classifier\<close>

text \<open>
  Claim C1. For every path, \<open>getBucketFromPath\<close> returns what is left after the leading
  slashes are skipped and the characters before the next slash (or the end of the string)
  are kept; the empty path and the path \<open>/\<close> give the empty string,
  \<open>/core-data/Cheques/dbo__cheques\<close> gives \<open>core-data\<close>, and \<open>noleadingslash/x\<close> gives
  \<open>noleadingslash\<close>.
\<close>

theorem getBucketFromPath_first_segment:
  "getBucketFromPath path = bucketFromPath_spec path \<and>
   getBucketFromPath [] = [] \<and>
   getBucketFromPath ''/'' = [] \<and>
   getBucketFromPath ''/core-data/Cheques/dbo__cheques'' = ''core-data'' \<and>
   getBucketFromPath ''noleadingslash/x'' = ''noleadingslash''"
proof -
  have g: "getBucketFromPath p = bucketFromPath_spec p" for p
    by (simp add: getBucketFromPath_def bucketFromPath_spec_def copySegment_eq skipSlashes_eq
        dropWhile_eq_drop)
  show ?thesis
    unfolding g by (simp add: bucketFromPath_spec_def)
qed

section \<open>The setters and getters of ConnStats\<close>

text \<open>
  Claim C3. For every non-negative \<open>int64\<close> \<open>n\<close> and every record, \<open>setInputBytes n\<close>
  followed by \<open>getTotalInputBytes\<close> returns exactly \<open>n\<close>, and \<open>setOutputBytes n\<close>
  followed by \<open>getTotalOutputBytes\<close> returns exactly \<open>n\<close>, whatever the record held
  before.
\<close>

theorem set_get_bytes_roundtrip:
  "0 \<le> sint n \<Longrightarrow>
   uint (getTotalInputBytes (setInputBytes s n)) = sint n \<and>
   uint (getTotalOutputBytes (setOutputBytes s n)) = sint n"
  by (simp add: getTotalInputBytes_def setInputBytes_def getTotalOutputBytes_def
      setOutputBytes_def uint_uint64_of_int64_nonneg)

theorem set_get_bytes_roundtrip_witness:
  "0 \<le> sint (9223372036854775807 :: int64) \<and>
   uint (getTotalInputBytes
     (setInputBytes (setInputBytes (newConnStats ''a'') 17) 9223372036854775807)) =
     9223372036854775807 \<and>
   uint (getTotalOutputBytes
     (setOutputBytes (setInputBytes (newConnStats ''a'') 17) 9223372036854775807)) =
     9223372036854775807"
  using set_get_bytes_roundtrip
    [of 9223372036854775807 "setInputBytes (newConnStats ''a'') 17"]
  by simp

text \<open>
  Claim C4. For every duration \<open>d\<close> and every record, \<open>setMinLatency d\<close> leaves
  \<open>minLatency\<close> equal to \<open>d\<close> and \<open>setMaxLatency d\<close> leaves \<open>maxLatency\<close> equal to \<open>d\<close>:
  the new value replaces the stored one and does not depend on it, whether \<open>d\<close> is
  larger or smaller than what was stored.
\<close>

theorem setLatency_replaces:
  "minLatency (setMinLatency s d) = d \<and> maxLatency (setMaxLatency s d) = d \<and>
   setMinLatency s d = setMinLatency (s\<lparr>minLatency := d'\<rparr>) d \<and>
   setMaxLatency s d = setMaxLatency (s\<lparr>maxLatency := d'\<rparr>) d"
  by (simp add: setMinLatency_def setMaxLatency_def)

text \<open>
  Claim C7. For every array \<open>counts\<close> of 112 counts, after
  \<open>setTotalCallFailures counts\<close> slot \<open>i\<close> of the failure array holds \<open>counts[i]\<close> read as
  unsigned, that is the count modulo \<open>2 ^ 64\<close>, for every \<open>i\<close>: the unsigned values of the
  112 slots are those of the 112 counts in order, and no slot keeps or accumulates its
  former value.
\<close>

theorem setTotalCallFailures_replaces_every_slot:
  "map uint (slots (totalFailedCalls (setTotalCallFailures s counts))) =
     map (\<lambda>v. sint v mod 2 ^ 64) (slots counts) \<and>
   length (slots counts) = 112 \<and>
   length (slots (totalFailedCalls (setTotalCallFailures s counts))) = 112 \<and>
   totalFailedCalls (setTotalCallFailures s counts) =
     totalFailedCalls (setTotalCallFailures (s\<lparr>totalFailedCalls := a\<rparr>) counts)"
proof -
  have "slots (totalFailedCalls (setTotalCallFailures s counts)) =
      slots (totalFailedCalls (setTotalCallFailures (s\<lparr>totalFailedCalls := a\<rparr>) counts))"
    by (simp add: slots_setTotalCallFailures)
  then have "totalFailedCalls (setTotalCallFailures s counts) =
      totalFailedCalls (setTotalCallFailures (s\<lparr>totalFailedCalls := a\<rparr>) counts)"
    by (simp add: slots_inject)
  moreover have "map uint (slots (totalFailedCalls (setTotalCallFailures s counts))) =
     map (\<lambda>v. sint v mod 2 ^ 64) (slots counts)"
    by (simp add: slots_setTotalCallFailures uint_uint64_of_int64 comp_def)
  ultimately show ?thesis
    using length_slots [of counts]
      length_slots [of "totalFailedCalls (setTotalCallFailures s counts)"]
    by (simp add: errorHTTPStatusCodes_eq)
qed

text \<open>
  Claim C8. Every setter changes only its own field: the record after the call is the
  record before it with that one field updated, so the endpoint and all the other fields
  are as they were.
\<close>

theorem setters_change_only_their_field:
  "setInputBytes s n = s\<lparr>totalInputBytes := totalInputBytes (setInputBytes s n)\<rparr> \<and>
   setOutputBytes s n = s\<lparr>totalOutputBytes := totalOutputBytes (setOutputBytes s n)\<rparr> \<and>
   setTotalCalls s n = s\<lparr>totalCalls := totalCalls (setTotalCalls s n)\<rparr> \<and>
   setTotalCallFailures s a =
     s\<lparr>totalFailedCalls := totalFailedCalls (setTotalCallFailures s a)\<rparr> \<and>
   setMinLatency s d = s\<lparr>minLatency := minLatency (setMinLatency s d)\<rparr> \<and>
   setMaxLatency s d = s\<lparr>maxLatency := maxLatency (setMaxLatency s d)\<rparr> \<and>
   endpoint (setInputBytes s n) = endpoint s \<and>
   endpoint (setOutputBytes s n) = endpoint s \<and>
   endpoint (setTotalCalls s n) = endpoint s \<and>
   endpoint (setTotalCallFailures s a) = endpoint s \<and>
   endpoint (setMinLatency s d) = endpoint s \<and>
   endpoint (setMaxLatency s d) = endpoint s"
proof -
  have "setTotalCallFailures s a =
      s\<lparr>totalFailedCalls := totalFailedCalls (setTotalCallFailures s a)\<rparr>"
    unfolding setTotalCallFailures_def
    using rangeStore_frame [of 0 "slots a" s]
    by (intro ConnStats.equality) simp_all
  moreover have "endpoint (setTotalCallFailures s a) = endpoint s"
    unfolding setTotalCallFailures_def
    using rangeStore_frame [of 0 "slots a" s] by simp
  ultimately show ?thesis
    by (simp add: setInputBytes_def setOutputBytes_def setTotalCalls_def setMinLatency_def
        setMaxLatency_def)
qed

text \<open>
  Claim C9. For every endpoint string \<open>e\<close>, \<open>newConnStats e\<close> has the endpoint \<open>e\<close>, and
  its byte counters, its call counter, each of the 112 slots of its failure array and its
  two latencies are zero.
\<close>

theorem newConnStats_zero:
  "endpoint (newConnStats e) = e \<and>
   totalInputBytes (newConnStats e) = 0 \<and>
   totalOutputBytes (newConnStats e) = 0 \<and>
   totalCalls (newConnStats e) = 0 \<and>
   slots (totalFailedCalls (newConnStats e)) = replicate 112 0 \<and>
   minLatency (newConnStats e) = 0 \<and>
   maxLatency (newConnStats e) = 0"
  by (simp add: newConnStats_def zeroArray.rep_eq errorHTTPStatusCodes_eq)

text \<open>
  Claim C10. For every \<open>int64\<close> \<open>n\<close>, negative or not, \<open>setInputBytes\<close>, \<open>setOutputBytes\<close>
  and \<open>setTotalCalls\<close> store \<open>n\<close> modulo \<open>2 ^ 64\<close> (the setters are total functions on
  records: they have no error result); for a negative \<open>n\<close> the value that
  \<open>getTotalInputBytes\<close> then returns is \<open>n + 2 ^ 64\<close>.
\<close>

theorem setters_convert_modulo_2_64:
  "uint (getTotalInputBytes (setInputBytes s n)) = sint n mod 2 ^ 64 \<and>
   uint (getTotalOutputBytes (setOutputBytes s n)) = sint n mod 2 ^ 64 \<and>
   uint (totalCalls (setTotalCalls s n)) = sint n mod 2 ^ 64 \<and>
   (sint n < 0 \<longrightarrow> uint (getTotalInputBytes (setInputBytes s n)) = sint n + 2 ^ 64)"
proof -
  have inp: "getTotalInputBytes (setInputBytes s n) = uint64_of_int64 n"
    by (simp add: getTotalInputBytes_def setInputBytes_def)
  have outp: "getTotalOutputBytes (setOutputBytes s n) = uint64_of_int64 n"
    by (simp add: getTotalOutputBytes_def setOutputBytes_def)
  have calls: "totalCalls (setTotalCalls s n) = uint64_of_int64 n"
    by (simp add: setTotalCalls_def)
  show ?thesis
    unfolding inp outp calls
    using uint_uint64_of_int64 [of n] uint_uint64_of_int64_neg [of n] by blast
qed

theorem setters_convert_modulo_2_64_witness:
  "sint (- 1 :: int64) < 0 \<and>
   uint (getTotalInputBytes (setInputBytes (newConnStats ''a'') (- 1))) =
     18446744073709551615 \<and>
   uint (getTotalOutputBytes (setOutputBytes (newConnStats ''a'') (- 1))) =
     18446744073709551615 \<and>
   uint (totalCalls (setTotalCalls (newConnStats ''a'') (- 1))) = 18446744073709551615"
  using setters_convert_modulo_2_64 [of "newConnStats ''a''" "- 1"] by simp

section \<open>Facts about the collector\<close>

subsection \<open>Label values that the library accepts\<close>





subsection \<open>The four constructors\<close>





subsection \<open>The loops\<close>






subsection \<open>Decimal strings of distinct numbers are distinct\<close>





subsection \<open>The conversion to float64 is exact up to \<open>2 ^ 53\<close>\<close>






subsection \<open>The failure metrics of one record\<close>






subsection \<open>The decimal string of a status code\<close>



subsection \<open>The conversion to float64 gives the nearest double\<close>




subsection \<open>Claims about the collector\<close>





subsection \<open>The value of a failure metric\<close>














end
